theory Spec2Isabelle
  imports Complex_Main
begin

section \<open>JavaScript numbers and typed arrays\<close>

text \<open>
  A JavaScript number is modelled as a real number or \<^verbatim>\<open>NaN\<close>. Arithmetic on real numbers is
  exact: the rounding of the double-precision operations, overflow and the two infinities are
  not modelled. \<^verbatim>\<open>NaN\<close> is modelled, with the rules of the language: an operation with a
  \<^verbatim>\<open>NaN\<close> operand gives \<^verbatim>\<open>NaN\<close>, and every comparison with \<^verbatim>\<open>NaN\<close> is false. A division by
  zero (an infinity or \<^verbatim>\<open>NaN\<close> in JavaScript) gives \<^verbatim>\<open>NaN\<close> here. (The division sign of HOL
  belongs to a class that also has \<open>inverse\<close>, which is defined with it.)

  A store into a \<^verbatim>\<open>Float32Array\<close> rounds the number to the nearest float32. The rounding is
  modelled (\<open>fround\<close> below) in the lerp step of \<^verbatim>\<open>update\<close>, where it decides how close the live
  positions come to their target; the other stores keep the exact value.
\<close>

datatype num = NaN | Num real

instantiation num :: "{plus, minus, times, inverse}"
begin

fun plus_num :: "num \<Rightarrow> num \<Rightarrow> num" where
  "plus_num (Num a) (Num b) = Num (a + b)"
| "plus_num _ _ = NaN"

fun minus_num :: "num \<Rightarrow> num \<Rightarrow> num" where
  "minus_num (Num a) (Num b) = Num (a - b)"
| "minus_num _ _ = NaN"

fun times_num :: "num \<Rightarrow> num \<Rightarrow> num" where
  "times_num (Num a) (Num b) = Num (a * b)"
| "times_num _ _ = NaN"

fun divide_num :: "num \<Rightarrow> num \<Rightarrow> num" where
  "divide_num (Num a) (Num b) = (if b = 0 then NaN else Num (a / b))"
| "divide_num _ _ = NaN"

fun inverse_num :: "num \<Rightarrow> num" where
  "inverse_num (Num a) = (if a = 0 then NaN else Num (inverse a))"
| "inverse_num NaN = NaN"

instance ..

end

text \<open>The comparisons \<^verbatim>\<open><\<close> and \<^verbatim>\<open><=\<close>; \<^verbatim>\<open>a > b\<close> is \<open>lt b a\<close>.\<close>

fun lt :: "num \<Rightarrow> num \<Rightarrow> bool" where
  "lt (Num a) (Num b) = (a < b)"
| "lt _ _ = False"

fun le :: "num \<Rightarrow> num \<Rightarrow> bool" where
  "le (Num a) (Num b) = (a \<le> b)"
| "le _ _ = False"

fun Math_sqrt :: "num \<Rightarrow> num" where
  "Math_sqrt (Num a) = (if a < 0 then NaN else Num (sqrt a))"
| "Math_sqrt NaN = NaN"

fun Math_sin :: "num \<Rightarrow> num" where
  "Math_sin (Num a) = Num (sin a)"
| "Math_sin NaN = NaN"

fun Math_cos :: "num \<Rightarrow> num" where
  "Math_cos (Num a) = Num (cos a)"
| "Math_cos NaN = NaN"

fun Math_acos :: "num \<Rightarrow> num" where
  "Math_acos (Num a) = (if - 1 \<le> a \<and> a \<le> 1 then Num (arccos a) else NaN)"
| "Math_acos NaN = NaN"

fun Math_cbrt :: "num \<Rightarrow> num" where
  "Math_cbrt (Num a) = Num (root 3 a)"
| "Math_cbrt NaN = NaN"

text \<open>\<^verbatim>\<open>Math.pow\<close> with an exponent that is a natural number, as in \<^verbatim>\<open>Math.pow(Math.sin(t), 3)\<close>.\<close>

fun Math_pow :: "num \<Rightarrow> nat \<Rightarrow> num" where
  "Math_pow (Num a) n = Num (a ^ n)"
| "Math_pow NaN n = (if n = 0 then Num 1 else NaN)"

definition Math_PI :: num where
  "Math_PI = Num pi"

text \<open>
  The remainder operator \<^verbatim>\<open>%\<close>: the quotient is truncated towards zero, and a zero divisor gives
  \<^verbatim>\<open>NaN\<close>.
\<close>

definition trunc :: "real \<Rightarrow> int" where
  "trunc q = (if q < 0 then \<lceil>q\<rceil> else \<lfloor>q\<rfloor>)"

fun js_rem :: "num \<Rightarrow> num \<Rightarrow> num" where
  "js_rem (Num a) (Num b) = (if b = 0 then NaN else Num (a - b * of_int (trunc (a / b))))"
| "js_rem _ _ = NaN"

text \<open>
  A \<^verbatim>\<open>Float32Array\<close> is a list of numbers of fixed length. \<^verbatim>\<open>new Float32Array(n)\<close> holds \<open>n\<close>
  zeros. A store \<^verbatim>\<open>arr[i] = v\<close> is \<open>arr[i := v]\<close>: a store beyond the end is ignored by a typed
  array, as it is by \<open>list_update\<close>. A read beyond the end gives \<^verbatim>\<open>undefined\<close>; every such read
  in the functions below is an operand of arithmetic or is stored into a \<^verbatim>\<open>Float32Array\<close>, where
  \<^verbatim>\<open>undefined\<close> becomes \<^verbatim>\<open>NaN\<close>, so the read is modelled as giving \<^verbatim>\<open>NaN\<close>.
\<close>

type_synonym Float32Array = "num list"

definition new_Float32Array :: "nat \<Rightarrow> Float32Array" where
  "new_Float32Array n = replicate n (Num 0)"

definition rd :: "Float32Array \<Rightarrow> nat \<Rightarrow> num" where
  "rd arr i = (if i < length arr then arr ! i else NaN)"

text \<open>
  A read \<^verbatim>\<open>arr[k]\<close> whose key is a computed number: only a key that is a whole number from 0 to
  the length minus 1 names an element; for any other key (a fraction, a negative number,
  \<^verbatim>\<open>NaN\<close>) the read gives \<^verbatim>\<open>undefined\<close>.
\<close>

fun rd_num :: "Float32Array \<Rightarrow> num \<Rightarrow> num" where
  "rd_num arr (Num k) =
     (if 0 \<le> k \<and> k = of_int \<lfloor>k\<rfloor> \<and> nat \<lfloor>k\<rfloor> < length arr then arr ! nat \<lfloor>k\<rfloor> else NaN)"
| "rd_num arr NaN = NaN"

text \<open>
  Rounding to float32, as a store into a \<^verbatim>\<open>Float32Array\<close> (and \<^verbatim>\<open>Math.fround\<close>) does it: to the
  nearest number \<open>k * 2\<^sup>e\<close> with 24 significant bits, a tie going to the even \<open>k\<close>. The
  exponent of a number \<open>a\<close> is \<open>\<lfloor>log\<^sub>2 \<bar>a\<bar>\<rfloor>\<close>, and not below \<open>-126\<close> (the subnormal range); one
  unit in the last place is \<open>2\<close> to the exponent minus 23. Overflow to an infinity is not
  modelled.
\<close>

definition round_half_even :: "real \<Rightarrow> int" where
  "round_half_even q =
     (let f = \<lfloor>q\<rfloor>; d = q - of_int f
      in if d < 1 / 2 then f
         else if 1 / 2 < d then f + 1
         else if even f then f else f + 1)"

definition float32_exponent :: "real \<Rightarrow> int" where
  "float32_exponent a = max \<lfloor>log 2 \<bar>a\<bar>\<rfloor> (- 126)"

definition float32_ulp :: "real \<Rightarrow> real" where
  "float32_ulp a = 2 powr (of_int (float32_exponent a) - 23)"

definition float32 :: "real \<Rightarrow> real" where
  "float32 a =
     (if a = 0 then 0 else float32_ulp a * of_int (round_half_even (a / float32_ulp a)))"

fun fround :: "num \<Rightarrow> num" where
  "fround (Num a) = Num (float32 a)"
| "fround NaN = NaN"


section \<open>Hand tracking: finger flags, gesture classifier, debounce (handTracking.js)\<close>

text \<open>
  The six gesture names of \<^verbatim>\<open>GESTURES\<close>. JavaScript's \<^verbatim>\<open>null\<close> gesture is \<open>None\<close> of
  \<open>gesture option\<close>.
\<close>

datatype gesture = INDEX_UP | PEACE | ROCK | ILY | OPEN | FIST

text \<open>
  Objects with fields \<^verbatim>\<open>x, y\<close> (the finger position) and \<^verbatim>\<open>x, y, z\<close> (a landmark, a
  \<^verbatim>\<open>THREE.Vector3\<close>). A landmark set is the array MediaPipe hands over.
\<close>

record 'a xy =
  x :: 'a
  y :: 'a

record 'a xyz = "'a xy" +
  z :: 'a

type_synonym landmarks = "real xyz list"

datatype finger = Thumb | Index | Middle | Ring | Pinky

datatype error = TypeError

text \<open>
  \<^verbatim>\<open>landmarks[i]\<close> followed by a property read: beyond the end of the array the element is
  \<^verbatim>\<open>undefined\<close> and reading \<^verbatim>\<open>.x\<close> or \<^verbatim>\<open>.y\<close> of it throws a TypeError.
\<close>

definition landmark :: "landmarks \<Rightarrow> nat \<Rightarrow> error + real xyz" where
  "landmark lm i = (if i < length lm then Inr (lm ! i) else Inl TypeError)"

definition and_then :: "error + 'a \<Rightarrow> ('a \<Rightarrow> error + 'b) \<Rightarrow> error + 'b" where
  "and_then r f = (case r of Inl e \<Rightarrow> Inl e | Inr v \<Rightarrow> f v)"

text \<open>
  The non-thumb branch of \<^verbatim>\<open>_isFingerExtended\<close>: the tip is above the PIP joint (image
  coordinates, \<open>y = 0\<close> at the top).
\<close>

definition tipAbovePip :: "landmarks \<Rightarrow> nat \<Rightarrow> nat \<Rightarrow> error + bool" where
  "tipAbovePip lm tipIdx pipIdx =
     and_then (landmark lm tipIdx) (\<lambda>tip.
     and_then (landmark lm pipIdx) (\<lambda>pip.
       Inr (y tip < y pip)))"

definition isFingerExtended :: "landmarks \<Rightarrow> finger \<Rightarrow> error + bool" where
  "isFingerExtended lm f =
     (case f of
        Thumb \<Rightarrow>
          and_then (landmark lm 4) (\<lambda>tip.
          and_then (landmark lm 3) (\<lambda>ip.
          and_then (landmark lm 2) (\<lambda>mcp.
            Inr (\<bar>x tip - x mcp\<bar> > \<bar>x ip - x mcp\<bar> * 1.2))))
      | Index \<Rightarrow> tipAbovePip lm 8 6
      | Middle \<Rightarrow> tipAbovePip lm 12 10
      | Ring \<Rightarrow> tipAbovePip lm 16 14
      | Pinky \<Rightarrow> tipAbovePip lm 20 18)"

text \<open>
  The body of \<^verbatim>\<open>_classifyGesture\<close> after the five flags are computed: the chain of
  \<^verbatim>\<open>if (...) return ...\<close> statements in the order of the source.
\<close>

definition classifyFlags :: "bool \<Rightarrow> bool \<Rightarrow> bool \<Rightarrow> bool \<Rightarrow> bool \<Rightarrow> gesture option" where
  "classifyFlags thumb index middle ring pinky =
     (let extendedCount = length (filter id [thumb, index, middle, ring, pinky]) in
      if thumb \<and> index \<and> \<not> middle \<and> \<not> ring \<and> pinky then Some ILY
      else if \<not> thumb \<and> index \<and> \<not> middle \<and> \<not> ring \<and> pinky then Some ROCK
      else if index \<and> middle \<and> \<not> ring \<and> \<not> pinky then Some PEACE
      else if index \<and> \<not> middle \<and> \<not> ring \<and> \<not> pinky \<and> \<not> thumb then Some INDEX_UP
      else if extendedCount \<ge> 4 then Some OPEN
      else if extendedCount \<le> 1 then Some FIST
      else None)"

definition classifyGesture :: "landmarks \<Rightarrow> error + gesture option" where
  "classifyGesture lm =
     and_then (isFingerExtended lm Thumb) (\<lambda>thumb.
     and_then (isFingerExtended lm Index) (\<lambda>index.
     and_then (isFingerExtended lm Middle) (\<lambda>middle.
     and_then (isFingerExtended lm Ring) (\<lambda>ring.
     and_then (isFingerExtended lm Pinky) (\<lambda>pinky.
       Inr (classifyFlags thumb index middle ring pinky))))))"

text \<open>
  The priority list as the specification words it: six (pattern, label) pairs in the order
  ILY, ROCK, PEACE, INDEX_UP, OPEN, FIST, the first pair whose pattern holds giving the label.
\<close>

definition spec_patterns :: "bool \<Rightarrow> bool \<Rightarrow> bool \<Rightarrow> bool \<Rightarrow> bool \<Rightarrow> (bool \<times> gesture) list" where
  "spec_patterns thumb index middle ring pinky =
     (let n = length (filter id [thumb, index, middle, ring, pinky]) in
      [(thumb \<and> index \<and> \<not> middle \<and> \<not> ring \<and> pinky, ILY),
       (\<not> thumb \<and> index \<and> \<not> middle \<and> \<not> ring \<and> pinky, ROCK),
       (index \<and> middle \<and> \<not> ring \<and> \<not> pinky, PEACE),
       (index \<and> \<not> middle \<and> \<not> ring \<and> \<not> pinky \<and> \<not> thumb, INDEX_UP),
       (n \<ge> 4, OPEN),
       (n \<le> 1, FIST)])"

definition spec_first_match :: "(bool \<times> gesture) list \<Rightarrow> gesture option" where
  "spec_first_match ps = map_option snd (find fst ps)"

text \<open>
  The tracker's fields that the detection callback reads and writes (the private fields
  \<^verbatim>\<open>_gestureBuffer\<close>, \<^verbatim>\<open>_gestureCount\<close> and \<^verbatim>\<open>_DEBOUNCE\<close> without the underscore). The video element, the
  MediaPipe handle, the preview canvas and the animation-frame id are browser objects; drawing
  on the preview canvas changes none of the fields below and is left out.
\<close>

record HandTracker =
  fingerPos :: "real xy option"
  gesture :: "gesture option"
  active :: bool
  gestureBuffer :: "gesture option"
  gestureCount :: nat
  DEBOUNCE :: nat

definition new_HandTracker :: HandTracker where
  "new_HandTracker =
     \<lparr>fingerPos = None, gesture = None, active = False,
      gestureBuffer = None, gestureCount = 0, DEBOUNCE = 3\<rparr>"

text \<open>
  The debounce statements of \<^verbatim>\<open>_onResults\<close> (lines 220 to 229), with the raw classification
  as argument.
\<close>

definition debounce :: "gesture option \<Rightarrow> HandTracker \<Rightarrow> HandTracker" where
  "debounce raw t =
     (let t1 = (if raw = gestureBuffer t
                then t\<lparr>gestureCount := gestureCount t + 1\<rparr>
                else t\<lparr>gestureBuffer := raw, gestureCount := 1\<rparr>)
      in if gestureCount t1 \<ge> DEBOUNCE t1 then t1\<lparr>gesture := raw\<rparr> else t1)"

text \<open>
  \<^verbatim>\<open>results.multiHandLandmarks\<close> is absent (\<open>None\<close>) or an array of landmark sets, one per
  detected hand. When a read of a missing landmark throws, the callback ends there and the
  model returns the error.
\<close>

type_synonym results = "landmarks list option"

definition onResults :: "results \<Rightarrow> HandTracker \<Rightarrow> error + HandTracker" where
  "onResults multiHandLandmarks t =
     (case multiHandLandmarks of
        None \<Rightarrow> Inr (t\<lparr>fingerPos := None\<rparr>)
      | Some hands \<Rightarrow>
          if length hands > 0 then
            (let lm = hands ! 0 in
             and_then (landmark lm 8) (\<lambda>tip.
               let t1 = t\<lparr>fingerPos := Some \<lparr>x = - (x tip * 2 - 1), y = - (y tip * 2 - 1)\<rparr>\<rparr> in
               and_then (classifyGesture lm) (\<lambda>raw.
                 Inr (debounce raw t1))))
          else Inr (t\<lparr>fingerPos := None\<rparr>))"

text \<open>
  Two example landmark sets of 21 points, given by the \<open>x\<close> and \<open>y\<close> coordinates of each
  point. In \<open>ily_hand\<close> the thumb, index and pinky are extended and middle and ring are curled;
  in \<open>three_finger_hand\<close> index, middle and ring are extended and thumb and pinky are not, a
  pattern that none of the six gestures covers.
\<close>

definition mk_hand :: "(real \<times> real) list \<Rightarrow> landmarks" where
  "mk_hand ps = map (\<lambda>(a, b). \<lparr>x = a, y = b, z = 0\<rparr>) ps"

definition ily_hand :: landmarks where
  "ily_hand = mk_hand
     [(0.5, 0.9),
      (0.4, 0.8), (0.4, 0.7), (0.3, 0.7), (0.1, 0.7),
      (0.45, 0.6), (0.45, 0.5), (0.45, 0.4), (0.45, 0.3),
      (0.5, 0.6), (0.5, 0.5), (0.5, 0.55), (0.5, 0.6),
      (0.55, 0.6), (0.55, 0.5), (0.55, 0.55), (0.55, 0.6),
      (0.6, 0.6), (0.6, 0.5), (0.6, 0.4), (0.6, 0.3)]"


text \<open>Feeding a sequence of raw labels to the debounce step, one per call, first label first.\<close>

definition feed :: "gesture option list \<Rightarrow> HandTracker \<Rightarrow> HandTracker" where
  "feed raws t = foldl (\<lambda>s r. debounce r s) t raws"

section \<open>The particle system (particles.js)\<close>

text \<open>
  The fields of \<^verbatim>\<open>ParticleSystem\<close> that \<^verbatim>\<open>setTarget\<close> and \<^verbatim>\<open>update\<close> read and write.
  \<open>positions\<close> is the array of the geometry's \<^verbatim>\<open>position\<close> attribute and \<open>uTime\<close> the value of the
  material's \<^verbatim>\<open>uTime\<close> uniform. The scale, random and colour attributes, the shader material and
  the \<^verbatim>\<open>needsUpdate\<close> flag only concern rendering and are left out.
\<close>

record ParticleSystem =
  count :: nat
  targetPositions :: "Float32Array option"
  lerpSpeed :: num
  attractor :: "num xyz option"
  attractRadius :: num
  attractStrength :: num
  positions :: Float32Array
  uTime :: num

definition PARTICLE_COUNT :: nat where
  "PARTICLE_COUNT = 5000"

text \<open>
  \<^verbatim>\<open>Math.random\<close> is a source outside the program. A function that calls it takes the sequence
  \<open>rnd\<close> of the values that its successive calls return: \<open>rnd 0\<close> is the value of its first call,
  \<open>rnd 1\<close> of its second, and so on.
\<close>

type_synonym random = "nat \<Rightarrow> real"

text \<open>
  \<^verbatim>\<open>_buildGeometry\<close>: each particle makes six calls of \<^verbatim>\<open>Math.random\<close>, the first three for its
  start position in a ball of radius 12 (the others for scale, twinkle phase and colour).
\<close>

definition buildGeometry :: "nat \<Rightarrow> random \<Rightarrow> Float32Array" where
  "buildGeometry n rnd =
     fold (\<lambda>i positions.
        let theta = Num (rnd (6 * i)) * Math_PI * Num 2;
            phi = Math_acos (Num 2 * Num (rnd (6 * i + 1)) - Num 1);
            r = Num 12 * Math_cbrt (Num (rnd (6 * i + 2)))
        in positions[i * 3 := r * Math_sin phi * Math_cos theta,
                     i * 3 + 1 := r * Math_sin phi * Math_sin theta,
                     i * 3 + 2 := r * Math_cos phi])
       [0..<n] (new_Float32Array (n * 3))"

definition new_ParticleSystem :: "random \<Rightarrow> ParticleSystem" where
  "new_ParticleSystem rnd =
     \<lparr>count = PARTICLE_COUNT,
      targetPositions = None,
      lerpSpeed = Num 0.08,
      attractor = None,
      attractRadius = Num 4.0,
      attractStrength = Num 0.06,
      positions = buildGeometry PARTICLE_COUNT rnd,
      uTime = Num 0\<rparr>"

text \<open>\<^verbatim>\<open>setTarget\<close>: the body of its loop for particle \<open>i\<close>, and the method.\<close>

definition setTarget_body :: "Float32Array \<Rightarrow> num \<Rightarrow> nat \<Rightarrow> Float32Array \<Rightarrow> Float32Array" where
  "setTarget_body targetArray srcLen i out =
     (let si = js_rem (Num (real i)) srcLen * Num 3
      in out[i * 3 := rd_num targetArray si,
             i * 3 + 1 := rd_num targetArray (si + Num 1),
             i * 3 + 2 := rd_num targetArray (si + Num 2)])"

definition setTarget :: "Float32Array \<Rightarrow> ParticleSystem \<Rightarrow> ParticleSystem" where
  "setTarget targetArray s =
     (let out = new_Float32Array (count s * 3);
          srcLen = Num (real (length targetArray)) / Num 3;
          out = fold (setTarget_body targetArray srcLen) [0..<count s] out
      in s\<lparr>targetPositions := Some out\<rparr>)"

text \<open>
  \<^verbatim>\<open>update\<close>: for particle \<open>i\<close>, step 1 moves the three coordinates towards the target (when a
  target is set) and step 2 adds the attraction (when an attractor is set); both work in place
  on the position array, in this order. The position array is a \<^verbatim>\<open>Float32Array\<close>: each store
  \<^verbatim>\<open>pos[ix] += ...\<close> of step 1 rounds the new value to float32.
\<close>

definition lerpStep :: "ParticleSystem \<Rightarrow> nat \<Rightarrow> Float32Array \<Rightarrow> Float32Array" where
  "lerpStep s i pos =
     (let ix = i * 3; iy = ix + 1; iz = ix + 2 in
      case targetPositions s of
        None \<Rightarrow> pos
      | Some T \<Rightarrow>
          (let pos = pos[ix := fround (rd pos ix + (rd T ix - rd pos ix) * lerpSpeed s)];
               pos = pos[iy := fround (rd pos iy + (rd T iy - rd pos iy) * lerpSpeed s)];
               pos = pos[iz := fround (rd pos iz + (rd T iz - rd pos iz) * lerpSpeed s)]
           in pos))"

definition attractStep :: "ParticleSystem \<Rightarrow> nat \<Rightarrow> Float32Array \<Rightarrow> Float32Array" where
  "attractStep s i pos =
     (let ix = i * 3; iy = ix + 1; iz = ix + 2 in
      case attractor s of
        None \<Rightarrow> pos
      | Some a \<Rightarrow>
          (let dx = x a - rd pos ix;
               dy = y a - rd pos iy;
               dz = z a - rd pos iz;
               dist = Math_sqrt (dx * dx + dy * dy + dz * dz)
           in if lt dist (attractRadius s) \<and> lt (Num 0.01) dist then
                (let force = attractStrength s * (Num 1 - dist / attractRadius s);
                     pos = pos[ix := rd pos ix + dx / dist * force];
                     pos = pos[iy := rd pos iy + dy / dist * force];
                     pos = pos[iz := rd pos iz + dz / dist * force]
                 in pos)
              else pos))"

definition update_body :: "ParticleSystem \<Rightarrow> nat \<Rightarrow> Float32Array \<Rightarrow> Float32Array" where
  "update_body s i pos = attractStep s i (lerpStep s i pos)"

definition update :: "num \<Rightarrow> ParticleSystem \<Rightarrow> ParticleSystem" where
  "update elapsed s =
     s\<lparr>uTime := elapsed,
       positions := fold (update_body s) [0..<count s] (positions s)\<rparr>"


text \<open>
  Notions for stating what \<^verbatim>\<open>update\<close> does to one particle: the three coordinates of particle
  \<open>i\<close> in a flat array, a store of three coordinates, and the two steps of the loop body as
  functions from the old coordinates of the particle to its new ones. Below they are proved
  equal to the in-place steps \<open>lerpStep\<close> and \<open>attractStep\<close>.
\<close>

type_synonym coords = "num \<times> num \<times> num"

definition read3 :: "nat \<Rightarrow> Float32Array \<Rightarrow> coords" where
  "read3 i arr = (rd arr (i * 3), rd arr (i * 3 + 1), rd arr (i * 3 + 2))"

definition write3 :: "nat \<Rightarrow> coords \<Rightarrow> Float32Array \<Rightarrow> Float32Array" where
  "write3 i p arr = (case p of (a, b, c) \<Rightarrow> arr[i * 3 := a, i * 3 + 1 := b, i * 3 + 2 := c])"

definition pick :: "coords \<Rightarrow> nat \<Rightarrow> num" where
  "pick p k = (case p of (a, b, c) \<Rightarrow> if k = 0 then a else if k = 1 then b else c)"

definition lerped :: "ParticleSystem \<Rightarrow> nat \<Rightarrow> coords \<Rightarrow> coords" where
  "lerped s i p =
     (case p of (px, py, pz) \<Rightarrow>
        case targetPositions s of
          None \<Rightarrow> (px, py, pz)
        | Some T \<Rightarrow>
            (fround (px + (rd T (i * 3) - px) * lerpSpeed s),
             fround (py + (rd T (i * 3 + 1) - py) * lerpSpeed s),
             fround (pz + (rd T (i * 3 + 2) - pz) * lerpSpeed s)))"

definition attracted :: "ParticleSystem \<Rightarrow> coords \<Rightarrow> coords" where
  "attracted s p =
     (case p of (px, py, pz) \<Rightarrow>
        case attractor s of
          None \<Rightarrow> (px, py, pz)
        | Some a \<Rightarrow>
            (let dx = x a - px;
                 dy = y a - py;
                 dz = z a - pz;
                 dist = Math_sqrt (dx * dx + dy * dy + dz * dz)
             in if lt dist (attractRadius s) \<and> lt (Num 0.01) dist then
                  (let force = attractStrength s * (Num 1 - dist / attractRadius s)
                   in (px + dx / dist * force, py + dy / dist * force, pz + dz / dist * force))
                else (px, py, pz)))"

text \<open>A small particle system for examples: two particles, fields as the constructor sets them.\<close>

definition two_particles :: ParticleSystem where
  "two_particles =
     \<lparr>count = 2, targetPositions = None, lerpSpeed = Num 0.08, attractor = None,
      attractRadius = Num 4.0, attractStrength = Num 0.06,
      positions = [Num 0, Num 0, Num 0, Num 1, Num 1, Num 1], uTime = Num 0\<rparr>"




section \<open>Formation generators (textPoints.js)\<close>

text \<open>
  Every generator allocates \<^verbatim>\<open>new Float32Array(count * 3)\<close> and fills it in a loop over the
  points \<open>0, \<dots>, count - 1\<close>. Point \<open>i\<close> of the sphere, compact and planet generators makes three
  calls of \<^verbatim>\<open>Math.random\<close>, the calls \<open>3 * i\<close>, \<open>3 * i + 1\<close> and \<open>3 * i + 2\<close> of the generator;
  point \<open>i\<close> of the heart generator makes two. The locals \<^verbatim>\<open>x\<close>, \<^verbatim>\<open>y\<close>, \<^verbatim>\<open>z\<close> of the heart
  generator are \<open>hx\<close>, \<open>hy\<close>, \<open>hz\<close> here, and \<^verbatim>\<open>y\<close> of the planet generator is \<open>ry\<close>.
\<close>

definition getSpherePositions :: "nat \<Rightarrow> num \<Rightarrow> random \<Rightarrow> Float32Array" where
  "getSpherePositions n radius rnd =
     fold (\<lambda>i arr.
        let theta = Num (rnd (3 * i)) * Math_PI * Num 2;
            phi = Math_acos (Num 2 * Num (rnd (3 * i + 1)) - Num 1);
            r = radius * Math_cbrt (Num (rnd (3 * i + 2)))
        in arr[i * 3 := r * Math_sin phi * Math_cos theta,
               i * 3 + 1 := r * Math_sin phi * Math_sin theta,
               i * 3 + 2 := r * Math_cos phi])
       [0..<n] (new_Float32Array (n * 3))"

definition getHeartPositions :: "nat \<Rightarrow> num \<Rightarrow> random \<Rightarrow> Float32Array" where
  "getHeartPositions n scale rnd =
     fold (\<lambda>i arr.
        let t = Num (rnd (2 * i)) * Math_PI * Num 2;
            hx = Num 16 * Math_pow (Math_sin t) 3;
            hy = Num 13 * Math_cos t
                 - Num 5 * Math_cos (Num 2 * t)
                 - Num 2 * Math_cos (Num 3 * t)
                 - Math_cos (Num 4 * t);
            hz = (Num (rnd (2 * i + 1)) - Num 0.5) * Num 2
        in arr[i * 3 := hx * scale * Num 0.25,
               i * 3 + 1 := hy * scale * Num 0.25,
               i * 3 + 2 := hz * Num 0.3])
       [0..<n] (new_Float32Array (n * 3))"

definition getCompactPositions :: "nat \<Rightarrow> num \<Rightarrow> random \<Rightarrow> Float32Array" where
  "getCompactPositions n radius rnd =
     fold (\<lambda>i arr.
        let theta = Num (rnd (3 * i)) * Math_PI * Num 2;
            phi = Math_acos (Num 2 * Num (rnd (3 * i + 1)) - Num 1);
            r = radius * Math_cbrt (Num (rnd (3 * i + 2)))
        in arr[i * 3 := r * Math_sin phi * Math_cos theta,
               i * 3 + 1 := r * Math_sin phi * Math_sin theta,
               i * 3 + 2 := r * Math_cos phi])
       [0..<n] (new_Float32Array (n * 3))"

text \<open>\<^verbatim>\<open>coreCount = Math.floor(count * 0.4)\<close> points form the body, the others the ring.\<close>

definition getPlanetPositions :: "nat \<Rightarrow> random \<Rightarrow> Float32Array" where
  "getPlanetPositions n rnd =
     (let coreCount = nat \<lfloor>real n * 0.4\<rfloor> in
      fold (\<lambda>i arr.
        if i < coreCount then
          (let theta = Num (rnd (3 * i)) * Math_PI * Num 2;
               phi = Math_acos (Num 2 * Num (rnd (3 * i + 1)) - Num 1);
               r = Num 2.0 * Math_cbrt (Num (rnd (3 * i + 2)))
           in arr[i * 3 := r * Math_sin phi * Math_cos theta,
                  i * 3 + 1 := r * Math_sin phi * Math_sin theta,
                  i * 3 + 2 := r * Math_cos phi])
        else
          (let angle = Num (rnd (3 * i)) * Math_PI * Num 2;
               ringR = Num 4.0 + (Num (rnd (3 * i + 1)) - Num 0.5) * Num 1.8;
               ry = (Num (rnd (3 * i + 2)) - Num 0.5) * Num 0.3
           in arr[i * 3 := Math_cos angle * ringR,
                  i * 3 + 1 := ry,
                  i * 3 + 2 := Math_sin angle * ringR]))
       [0..<n] (new_Float32Array (n * 3)))"

text \<open>
  A mesh as \<^verbatim>\<open>sampleSurface\<close> reads it: the vertices of the \<^verbatim>\<open>position\<close> attribute and the
  optional list of vertex indices. Three consecutive entries (of the index list when there is
  one, of the vertex list otherwise) form a triangle. The area of a triangle is computed by
  \<^verbatim>\<open>THREE.Triangle.getArea\<close>, a function of the geometry library that \<open>sampleSurface\<close> takes as
  the parameter \<open>getArea\<close>.
\<close>

record BufferGeometry =
  position :: "num xyz list"
  index :: "nat list option"

definition triCount :: "BufferGeometry \<Rightarrow> real" where
  "triCount geometry =
     (case index geometry of
        Some idx \<Rightarrow> real (length idx) / 3
      | None \<Rightarrow> real (length (position geometry)) / 3)"

text \<open>
  \<^verbatim>\<open>idx ? idx.getX(k) : k\<close> and \<^verbatim>\<open>fromBufferAttribute(pos, v)\<close>: an entry that does not exist is
  \<^verbatim>\<open>undefined\<close>, and the three coordinates read with it are \<^verbatim>\<open>undefined\<close>, which the arithmetic
  on them turns into \<^verbatim>\<open>NaN\<close>.
\<close>

definition vertexIndex :: "BufferGeometry \<Rightarrow> nat \<Rightarrow> nat option" where
  "vertexIndex geometry k =
     (case index geometry of
        Some idx \<Rightarrow> if k < length idx then Some (idx ! k) else None
      | None \<Rightarrow> Some k)"

definition fromBufferAttribute :: "BufferGeometry \<Rightarrow> nat option \<Rightarrow> num xyz" where
  "fromBufferAttribute geometry vi =
     (case vi of
        Some v \<Rightarrow> if v < length (position geometry) then position geometry ! v
                  else \<lparr>x = NaN, y = NaN, z = NaN\<rparr>
      | None \<Rightarrow> \<lparr>x = NaN, y = NaN, z = NaN\<rparr>)"

text \<open>
  A loop \<^verbatim>\<open>for (i = a; i < t; i++)\<close> with a bound \<open>t\<close> that need not be whole runs for
  \<open>i = a, \<dots>, \<lceil>t\<rceil> - 1\<close>; \<^verbatim>\<open>new Float32Array(t)\<close> has \<open>\<lfloor>t\<rfloor>\<close> elements.
\<close>

definition upto_bound :: "nat \<Rightarrow> real \<Rightarrow> nat list" where
  "upto_bound a t = [a..<nat \<lceil>t\<rceil>]"

text \<open>The first loop: the area of each triangle and the total area.\<close>

definition triangleAreas ::
  "(num xyz \<Rightarrow> num xyz \<Rightarrow> num xyz \<Rightarrow> num) \<Rightarrow> BufferGeometry \<Rightarrow> Float32Array \<times> num" where
  "triangleAreas getArea geometry =
     fold (\<lambda>i (areas, totalArea).
        let a = fromBufferAttribute geometry (vertexIndex geometry (i * 3));
            b = fromBufferAttribute geometry (vertexIndex geometry (i * 3 + 1));
            c = fromBufferAttribute geometry (vertexIndex geometry (i * 3 + 2));
            area = getArea a b c
        in (areas[i := area], totalArea + area))
       (upto_bound 0 (triCount geometry))
       (new_Float32Array (nat \<lfloor>triCount geometry\<rfloor>), Num 0)"

text \<open>The cumulative distribution over the triangles.\<close>

definition cumulative :: "Float32Array \<Rightarrow> num \<Rightarrow> real \<Rightarrow> Float32Array" where
  "cumulative areas totalArea t =
     (let cdf = new_Float32Array (nat \<lfloor>t\<rfloor>);
          cdf = cdf[0 := rd areas 0 / totalArea]
      in fold (\<lambda>i cdf. cdf[i := rd cdf (i - 1) + rd areas i / totalArea]) (upto_bound 1 t) cdf)"

text \<open>
  The walk \<^verbatim>\<open>for (ti = 0; ti < triCount - 1; ti++) { if (r <= cdf[ti]) break; }\<close>, started at
  \<open>ti\<close>; its value is \<open>ti\<close> after the loop.
\<close>

function pickTriangle :: "num \<Rightarrow> Float32Array \<Rightarrow> real \<Rightarrow> nat \<Rightarrow> nat" where
  "pickTriangle r cdf t ti =
     (if real ti < t - 1
      then (if le r (rd cdf ti) then ti else pickTriangle r cdf t (ti + 1))
      else ti)"
  by pat_completeness auto
termination
proof (relation "measure (\<lambda>(r, cdf, t, ti). nat \<lceil>t - 1\<rceil> - ti)")
  show "wf (measure (\<lambda>(r, cdf, t, ti). nat \<lceil>t - 1\<rceil> - ti))"
    by simp
next
  fix r :: num and cdf :: Float32Array and t :: real and ti :: nat
  assume "real ti < t - 1"
  then have "real_of_int (int ti) < t - 1"
    by simp
  then have "int ti < \<lceil>t - 1\<rceil>"
    by (simp only: less_ceiling_iff)
  then show "((r, cdf, t, ti + 1), (r, cdf, t, ti)) \<in> measure (\<lambda>(r, cdf, t, ti). nat \<lceil>t - 1\<rceil> - ti)"
    by simp
qed

definition sampleSurface ::
  "(num xyz \<Rightarrow> num xyz \<Rightarrow> num xyz \<Rightarrow> num) \<Rightarrow> BufferGeometry \<Rightarrow> nat \<Rightarrow> random \<Rightarrow> Float32Array" where
  "sampleSurface getArea geometry n rnd =
     (let (areas, totalArea) = triangleAreas getArea geometry;
          cdf = cumulative areas totalArea (triCount geometry)
      in fold (\<lambda>s arr.
           let r = Num (rnd (3 * s));
               ti = pickTriangle r cdf (triCount geometry) 0;
               a = fromBufferAttribute geometry (vertexIndex geometry (ti * 3));
               b = fromBufferAttribute geometry (vertexIndex geometry (ti * 3 + 1));
               c = fromBufferAttribute geometry (vertexIndex geometry (ti * 3 + 2));
               u = Num (rnd (3 * s + 1));
               v = Num (rnd (3 * s + 2));
               (u, v) = (if lt (Num 1) (u + v) then (Num 1 - u, Num 1 - v) else (u, v));
               w = Num 1 - u - v
           in arr[s * 3 := x a * w + x b * u + x c * v,
                  s * 3 + 1 := y a * w + y b * u + y c * v,
                  s * 3 + 2 := z a * w + z b * u + z c * v])
         [0..<n] (new_Float32Array (n * 3)))"

text \<open>
  \<^verbatim>\<open>getTextPositions\<close>: the mesh of the text is built and centred by \<^verbatim>\<open>TextGeometry\<close> of the
  geometry library from the loaded font; the function \<open>TextGeometry\<close> from the text to the
  centred mesh is a parameter.
\<close>

definition getTextPositions ::
  "(string \<Rightarrow> BufferGeometry) \<Rightarrow> (num xyz \<Rightarrow> num xyz \<Rightarrow> num xyz \<Rightarrow> num)
     \<Rightarrow> string \<Rightarrow> nat \<Rightarrow> random \<Rightarrow> Float32Array" where
  "getTextPositions TextGeometry getArea text n rnd =
     sampleSurface getArea (TextGeometry text) n rnd"

section \<open>The orchestrator: formations (main.js)\<close>

text \<open>
  The formation ids of the table \<^verbatim>\<open>F\<close>, in its order. Every caller of \<^verbatim>\<open>setFormation\<close>
  passes one of them.
\<close>

datatype formation = PLANET | CAROLINA | TEQUIERO | HEART | COSMOS | COMPACT

text \<open>
  The titles of \<^verbatim>\<open>FORMATION_INFO\<close>. A pictograph of the source text is written here by its
  name between colons.
\<close>

definition FORMATION_INFO_title :: "formation \<Rightarrow> string" where
  "FORMATION_INFO_title f =
     (case f of
        PLANET \<Rightarrow> '':sparkles: Un planeta para ti :sparkles:''
      | CAROLINA \<Rightarrow> '':sparkling heart: Carolina :sparkling heart:''
      | TEQUIERO \<Rightarrow> '':purple heart: Te Quiero :purple heart:''
      | HEART \<Rightarrow> '':red heart: Te Quiero :red heart:''
      | COSMOS \<Rightarrow> '':sparkles: Las estrellas son tuyas :sparkles:''
      | COMPACT \<Rightarrow> '':dizzy: Todo para ti :dizzy:'')"

text \<open>
  The module state that \<^verbatim>\<open>setFormation\<close> reads and writes: the current formation, the table
  \<^verbatim>\<open>formationData\<close> of the point clouds computed so far (empty until
  \<^verbatim>\<open>precomputeFormations\<close> has run), the particle system, and the text of the title element.
\<close>

record orchestrator =
  currentFormation :: formation
  formationData :: "formation \<rightharpoonup> Float32Array"
  particles :: ParticleSystem
  titleText :: string

definition setFormation :: "formation \<Rightarrow> orchestrator \<Rightarrow> orchestrator" where
  "setFormation fid st =
     (if fid = currentFormation st then st
      else case formationData st fid of
             None \<Rightarrow> st
           | Some cloud \<Rightarrow>
               st\<lparr>currentFormation := fid,
                  particles := setTarget cloud (particles st),
                  titleText := FORMATION_INFO_title fid\<rparr>)"

text \<open>
  An example state: the system of two particles, COSMOS current, and only the COSMOS cloud
  computed.
\<close>

definition example_orchestrator :: orchestrator where
  "example_orchestrator =
     \<lparr>currentFormation = COSMOS,
      formationData = [COSMOS \<mapsto> [Num 1, Num 2, Num 3]],
      particles = two_particles,
      titleText = ''''\<rparr>"

section \<open>Properties of the hand tracker\<close>

lemma feed_snoc: "feed (raws @ [r]) t = debounce r (feed raws t)"
  by (simp add: feed_def)

lemma debounce_DEBOUNCE: "DEBOUNCE (debounce r t) = DEBOUNCE t"
  by (simp add: debounce_def Let_def)

lemma feed_DEBOUNCE: "DEBOUNCE (feed raws t) = DEBOUNCE t"
  by (induction raws rule: rev_induct) (simp_all add: feed_def debounce_DEBOUNCE)

lemma feed_run:
  "\<exists>pre. raws = pre @ replicate (gestureCount (feed raws new_HandTracker))
                                  (gestureBuffer (feed raws new_HandTracker))"
proof (induction raws rule: rev_induct)
  case Nil
  show ?case by (simp add: feed_def new_HandTracker_def)
next
  case (snoc r raws)
  let ?t = "feed raws new_HandTracker"
  from snoc obtain pre where pre: "raws = pre @ replicate (gestureCount ?t) (gestureBuffer ?t)"
    by blast
  let ?t' = "feed (raws @ [r]) new_HandTracker"
  show ?case
  proof (cases "r = gestureBuffer ?t")
    case True
    have st: "gestureCount ?t' = Suc (gestureCount ?t)" "gestureBuffer ?t' = r"
      using True by (simp_all add: feed_snoc debounce_def Let_def)
    have "raws @ [r] = (pre @ replicate (gestureCount ?t) r) @ [r]"
      using pre True by simp
    then have "raws @ [r] = pre @ replicate (Suc (gestureCount ?t)) r"
      by (simp add: replicate_append_same)
    then show ?thesis unfolding st by (rule exI)
  next
    case False
    have st: "gestureCount ?t' = 1" "gestureBuffer ?t' = r"
      using False by (simp_all add: feed_snoc debounce_def Let_def)
    have "raws @ [r] = raws @ replicate 1 r"
      by simp
    then show ?thesis unfolding st by (rule exI)
  qed
qed

lemma debounce_change:
  "gesture (debounce r t) \<noteq> gesture t \<Longrightarrow>
     gestureBuffer (debounce r t) = r \<and> gestureCount (debounce r t) \<ge> DEBOUNCE t"
  by (auto simp: debounce_def Let_def split: if_splits)

lemma replicate_three: "3 \<le> n \<Longrightarrow> replicate n r = replicate (n - 3) r @ [r, r, r]"
proof -
  assume "3 \<le> n"
  then have "n = (n - 3) + 3" by simp
  then have "replicate n r = replicate (n - 3) r @ replicate 3 r"
    by (metis replicate_add)
  then show ?thesis by (simp add: numeral_3_eq_3)
qed

text \<open>
  Claim C1. Feed any sequence of raw labels to the debounce step, one per call, starting from
  the state of the constructor (buffer \<open>null\<close>, count 0). If a call changes the committed
  gesture, the label of that call is also the label of the two calls before it: the change
  happens only on the third (or a later) consecutive call with one label. For the sequence
  FIST, FIST, OPEN, OPEN, OPEN the committed gesture after the calls 1 to 5 is
  \<open>null\<close>, \<open>null\<close>, \<open>null\<close>, \<open>null\<close>, OPEN: FIST is never committed and OPEN is committed at the
  fifth call.
\<close>

theorem C1_debounce_three_consecutive:
  "(gesture (debounce r (feed raws new_HandTracker)) \<noteq> gesture (feed raws new_HandTracker)
      \<longrightarrow> (\<exists>pre. raws = pre @ [r, r]))
   \<and> map (\<lambda>n. gesture (feed (take n [Some FIST, Some FIST, Some OPEN, Some OPEN, Some OPEN])
                              new_HandTracker)) [1, 2, 3, 4, 5]
       = [None, None, None, None, Some OPEN]"
proof
  show "gesture (debounce r (feed raws new_HandTracker)) \<noteq> gesture (feed raws new_HandTracker)
      \<longrightarrow> (\<exists>pre. raws = pre @ [r, r])"
  proof
    let ?t = "feed raws new_HandTracker"
    let ?t' = "feed (raws @ [r]) new_HandTracker"
    assume ch: "gesture (debounce r ?t) \<noteq> gesture ?t"
    have D: "DEBOUNCE ?t = 3" by (simp add: feed_DEBOUNCE new_HandTracker_def)
    from debounce_change[OF ch] D
    have b: "gestureBuffer ?t' = r" and c: "3 \<le> gestureCount ?t'"
      by (simp_all add: feed_snoc)
    from feed_run[of "raws @ [r]"] b obtain pre where
      "raws @ [r] = pre @ replicate (gestureCount ?t') r" by auto
    with replicate_three[OF c, of r]
    have "raws @ [r] = (pre @ replicate (gestureCount ?t' - 3) r @ [r, r]) @ [r]" by simp
    then have "raws = pre @ replicate (gestureCount ?t' - 3) r @ [r, r]"
      by (rule append1_eq_conv[THEN iffD1, THEN conjunct1])
    then have "raws = (pre @ replicate (gestureCount ?t' - 3) r) @ [r, r]" by simp
    then show "\<exists>pre. raws = pre @ [r, r]" by blast
  qed
next
  show "map (\<lambda>n. gesture (feed (take n [Some FIST, Some FIST, Some OPEN, Some OPEN, Some OPEN])
                              new_HandTracker)) [1, 2, 3, 4, 5]
       = [None, None, None, None, Some OPEN]"
    by (simp add: feed_def debounce_def new_HandTracker_def Let_def)
qed

text \<open>
  The premise of C1 holds at the third OPEN in a row: that call changes the committed gesture.
\<close>

theorem C1_debounce_three_consecutive_witness:
  "gesture (debounce (Some OPEN) (feed [Some OPEN, Some OPEN] new_HandTracker))
     \<noteq> gesture (feed [Some OPEN, Some OPEN] new_HandTracker)
   \<and> (\<exists>pre. [Some OPEN, Some OPEN] = pre @ [Some OPEN, Some OPEN])"
  using C1_debounce_three_consecutive [of "Some OPEN" "[Some OPEN, Some OPEN]"]
  by (simp add: feed_def debounce_def new_HandTracker_def Let_def)


lemma classifyFlags_first_match:
  "classifyFlags t i m r p = spec_first_match (spec_patterns t i m r p)"
  by (simp add: classifyFlags_def spec_first_match_def spec_patterns_def Let_def)

text \<open>
  Claim C2. For a landmark set of 21 points whose flags are thumb, index and pinky extended,
  middle and ring not extended, \<^verbatim>\<open>_classifyGesture\<close> returns ILY. The chain of returns is the
  first match of the priority list ILY, ROCK, PEACE, INDEX_UP, OPEN, FIST for all flags, and a
  list that starts with a matching ILY pattern gives ILY whatever follows it.
\<close>

theorem C2_ily_first:
  assumes "length lm = 21"
    and "isFingerExtended lm Thumb = Inr True"
    and "isFingerExtended lm Index = Inr True"
    and "isFingerExtended lm Middle = Inr False"
    and "isFingerExtended lm Ring = Inr False"
    and "isFingerExtended lm Pinky = Inr True"
  shows "classifyGesture lm = Inr (Some ILY)
         \<and> (\<forall>t i m r p. classifyFlags t i m r p = spec_first_match (spec_patterns t i m r p))
         \<and> (\<forall>rest. spec_first_match ((True, ILY) # rest) = Some ILY)"
proof -
  have "classifyGesture lm = Inr (classifyFlags True True False False True)"
    using assms by (simp add: classifyGesture_def and_then_def)
  then have "classifyGesture lm = Inr (Some ILY)"
    by (simp add: classifyFlags_def)
  then show ?thesis
    by (simp add: classifyFlags_first_match spec_first_match_def)
qed

lemma ily_hand_flags:
  "isFingerExtended ily_hand Thumb = Inr True"
  "isFingerExtended ily_hand Index = Inr True"
  "isFingerExtended ily_hand Middle = Inr False"
  "isFingerExtended ily_hand Ring = Inr False"
  "isFingerExtended ily_hand Pinky = Inr True"
  by (simp_all add: isFingerExtended_def tipAbovePip_def landmark_def and_then_def
        ily_hand_def mk_hand_def)

text \<open>
  The premises of C2 hold for the example hand \<open>ily_hand\<close>.
\<close>

theorem C2_ily_first_witness:
  "length ily_hand = 21
   \<and> isFingerExtended ily_hand Thumb = Inr True
   \<and> isFingerExtended ily_hand Index = Inr True
   \<and> isFingerExtended ily_hand Middle = Inr False
   \<and> isFingerExtended ily_hand Ring = Inr False
   \<and> isFingerExtended ily_hand Pinky = Inr True
   \<and> classifyGesture ily_hand = Inr (Some ILY)"
proof -
  have len: "length ily_hand = 21" by (simp add: ily_hand_def mk_hand_def)
  from C2_ily_first [OF len ily_hand_flags] len ily_hand_flags
  show ?thesis by simp
qed

text \<open>
  Claim C3. A detection result without hands (the list of hands absent or empty) never throws;
  it sets the finger position to \<open>null\<close> and leaves the committed gesture, the buffered raw
  label and the consecutive count as they were. With PEACE committed, PEACE stays committed.
\<close>

theorem C3_no_hand_keeps_gesture:
  "onResults None t = Inr (t\<lparr>fingerPos := None\<rparr>)
   \<and> onResults (Some []) t = Inr (t\<lparr>fingerPos := None\<rparr>)
   \<and> fingerPos (t\<lparr>fingerPos := None\<rparr>) = None
   \<and> gesture (t\<lparr>fingerPos := None\<rparr>) = gesture t
   \<and> gestureBuffer (t\<lparr>fingerPos := None\<rparr>) = gestureBuffer t
   \<and> gestureCount (t\<lparr>fingerPos := None\<rparr>) = gestureCount t
   \<and> map_sum id gesture (onResults None (t\<lparr>gesture := Some PEACE\<rparr>)) = Inr (Some PEACE)
   \<and> map_sum id gesture (onResults (Some []) (t\<lparr>gesture := Some PEACE\<rparr>)) = Inr (Some PEACE)"
  by (simp add: onResults_def)










section \<open>Properties of the particle system\<close>

subsection \<open>One particle at a time\<close>

lemma rd_update_neq: "i \<noteq> j \<Longrightarrow> rd (xs[i := v]) j = rd xs j"
  by (simp add: rd_def)

lemma rd_update_eq: "i < length xs \<Longrightarrow> rd (xs[i := v]) i = v"
  by (simp add: rd_def)

lemma update_rd_same: "xs[i := rd xs i] = xs"
  by (cases "i < length xs") (simp_all add: rd_def list_update_beyond)

lemma length_write3: "length (write3 i p xs) = length xs"
  by (simp add: write3_def split: prod.splits)

lemma particle_index:
  fixes i j :: nat
  shows "j div 3 \<noteq> i \<Longrightarrow> j \<noteq> i * 3 \<and> j \<noteq> i * 3 + 1 \<and> j \<noteq> i * 3 + 2"
  by auto

lemma write3_other: "j div 3 \<noteq> i \<Longrightarrow> write3 i p xs ! j = xs ! j"
  using particle_index [of j i] by (auto simp: write3_def split: prod.splits)

lemma write3_nth:
  assumes "i * 3 + 2 < length xs" and "k < 3"
  shows "write3 i p xs ! (i * 3 + k) = pick p k"
proof -
  from \<open>k < 3\<close> consider "k = 0" | "k = 1" | "k = 2" by linarith
  then show ?thesis
    using assms(1) by cases (auto simp: write3_def pick_def split: prod.splits)
qed

lemma write3_read3: "write3 i (read3 i xs) xs = xs"
  by (simp add: write3_def read3_def update_rd_same)

lemma read3_write3: "i * 3 + 2 < length xs \<Longrightarrow> read3 i (write3 i p xs) = p"
  by (auto simp: write3_def read3_def rd_def split: prod.splits)

lemma nth_update_in: "j < length xs \<Longrightarrow> xs[i := v] ! j = (if i = j then v else xs ! j)"
  by auto

lemma write3_write3: "write3 i q (write3 i p xs) = write3 i q xs"
  by (auto simp: write3_def list_eq_iff_nth_eq nth_update_in split: prod.splits)

lemma read3_cong:
  assumes "length xs = length ys" and "\<forall>k<3. xs ! (i * 3 + k) = ys ! (i * 3 + k)"
  shows "read3 i xs = read3 i ys"
proof -
  have "xs ! (i * 3 + 0) = ys ! (i * 3 + 0)" "xs ! (i * 3 + 1) = ys ! (i * 3 + 1)"
       "xs ! (i * 3 + 2) = ys ! (i * 3 + 2)"
    using assms(2) [rule_format, of 0] assms(2) [rule_format, of 1]
          assms(2) [rule_format, of 2]
    by simp_all
  then show ?thesis using assms(1) by (simp add: read3_def rd_def)
qed

lemma lerpStep_write3: "lerpStep s i xs = write3 i (lerped s i (read3 i xs)) xs"
proof (cases "targetPositions s")
  case None
  then have "lerped s i (read3 i xs) = read3 i xs" "lerpStep s i xs = xs"
    by (simp_all add: lerped_def lerpStep_def split: prod.splits)
  then show ?thesis by (simp add: write3_read3)
next
  case (Some T)
  then show ?thesis
    by (simp add: lerped_def lerpStep_def read3_def write3_def Let_def rd_update_neq)
qed

lemma attractStep_write3: "attractStep s i xs = write3 i (attracted s (read3 i xs)) xs"
proof (cases "attractor s")
  case None
  then have "attracted s (read3 i xs) = read3 i xs" "attractStep s i xs = xs"
    by (simp_all add: attracted_def attractStep_def split: prod.splits)
  then show ?thesis by (simp add: write3_read3)
next
  case (Some a)
  show ?thesis
  proof (cases "lt (Math_sqrt ((x a - rd xs (i * 3)) * (x a - rd xs (i * 3))
                  + (y a - rd xs (i * 3 + 1)) * (y a - rd xs (i * 3 + 1))
                  + (z a - rd xs (i * 3 + 2)) * (z a - rd xs (i * 3 + 2)))) (attractRadius s)
                \<and> lt (Num 0.01) (Math_sqrt ((x a - rd xs (i * 3)) * (x a - rd xs (i * 3))
                  + (y a - rd xs (i * 3 + 1)) * (y a - rd xs (i * 3 + 1))
                  + (z a - rd xs (i * 3 + 2)) * (z a - rd xs (i * 3 + 2))))")
    case True
    with Some show ?thesis
      by (simp add: attracted_def attractStep_def read3_def write3_def Let_def rd_update_neq)
  next
    case False
    with Some have "attracted s (read3 i xs) = read3 i xs" "attractStep s i xs = xs"
      by (auto simp add: attracted_def attractStep_def read3_def Let_def)
    then show ?thesis by (simp add: write3_read3)
  qed
qed

lemma update_body_write3:
  assumes "i * 3 + 2 < length xs"
  shows "update_body s i xs = write3 i (attracted s (lerped s i (read3 i xs))) xs"
proof -
  let ?p = "lerped s i (read3 i xs)"
  have "update_body s i xs = attractStep s i (write3 i ?p xs)"
    by (simp only: update_body_def lerpStep_write3)
  also have "\<dots> = write3 i (attracted s (read3 i (write3 i ?p xs))) (write3 i ?p xs)"
    by (rule attractStep_write3)
  also have "\<dots> = write3 i (attracted s ?p) xs"
    by (simp only: read3_write3 [OF assms] write3_write3)
  finally show ?thesis .
qed

lemma fold_upt_Suc: "fold g [0..<Suc n] xs = g n (fold g [0..<n] xs)"
  by simp

lemma fold_write3:
  fixes F :: "nat \<Rightarrow> coords \<Rightarrow> coords"
  assumes g: "\<And>i xs. i * 3 + 2 < length xs \<Longrightarrow> g i xs = write3 i (F i (read3 i xs)) xs"
    and len: "length xs = N * 3" and n: "n \<le> N"
  shows "length (fold g [0..<n] xs) = N * 3
       \<and> (\<forall>j < N * 3. fold g [0..<n] xs ! j =
             (if j div 3 < n then pick (F (j div 3) (read3 (j div 3) xs)) (j mod 3) else xs ! j))"
  using n
proof (induction n)
  case 0
  show ?case using len by simp
next
  case (Suc n)
  let ?ys = "fold g [0..<n] xs"
  from Suc have IH: "length ?ys = N * 3"
    "\<And>j. j < N * 3 \<Longrightarrow> ?ys ! j =
        (if j div 3 < n then pick (F (j div 3) (read3 (j div 3) xs)) (j mod 3) else xs ! j)"
    by simp_all
  from Suc.prems have nN: "n < N" by simp
  then have inr: "n * 3 + 2 < length ?ys" using IH(1) by simp
  have same: "read3 n ?ys = read3 n xs"
  proof (rule read3_cong)
    show "length ?ys = length xs" using IH(1) len by simp
    show "\<forall>k<3. ?ys ! (n * 3 + k) = xs ! (n * 3 + k)"
    proof (intro allI impI)
      fix k :: nat assume k: "k < 3"
      then have "n * 3 + k < N * 3" using nN by simp
      moreover have "(n * 3 + k) div 3 = n" using k by simp
      ultimately show "?ys ! (n * 3 + k) = xs ! (n * 3 + k)" using IH(2) by simp
    qed
  qed
  have step: "fold g [0..<Suc n] xs = write3 n (F n (read3 n xs)) ?ys"
    using g [OF inr] same by simp
  show ?case
  proof (intro conjI allI impI)
    show "length (fold g [0..<Suc n] xs) = N * 3"
      using IH(1) by (simp only: step length_write3)
  next
    fix j assume j: "j < N * 3"
    show "fold g [0..<Suc n] xs ! j =
          (if j div 3 < Suc n then pick (F (j div 3) (read3 (j div 3) xs)) (j mod 3) else xs ! j)"
    proof (cases "j div 3 = n")
      case True
      then have jj: "j = n * 3 + j mod 3" by (metis div_mult_mod_eq)
      have "write3 n (F n (read3 n xs)) ?ys ! (n * 3 + j mod 3) = pick (F n (read3 n xs)) (j mod 3)"
        by (rule write3_nth [OF inr]) simp
      then show ?thesis using True jj by (simp only: step) simp
    next
      case False
      then have "fold g [0..<Suc n] xs ! j = ?ys ! j"
        unfolding step by (rule write3_other)
      then show ?thesis using False IH(2) [OF j] by auto
    qed
  qed
qed

subsection \<open>The loops of \<^verbatim>\<open>update\<close> and \<^verbatim>\<open>setTarget\<close>\<close>

lemma update_positions:
  assumes "length (positions s) = count s * 3"
  shows "length (positions (update e s)) = count s * 3
       \<and> (\<forall>j < count s * 3. positions (update e s) ! j =
             pick (attracted s (lerped s (j div 3) (read3 (j div 3) (positions s)))) (j mod 3))"
proof -
  have g: "\<And>i xs. i * 3 + 2 < length xs \<Longrightarrow>
             update_body s i xs = write3 i ((\<lambda>i p. attracted s (lerped s i p)) i (read3 i xs)) xs"
    by (simp add: update_body_write3)
  have j: "\<And>j. j < count s * 3 \<Longrightarrow> j div 3 < count s" by auto
  from fold_write3 [of "update_body s" "\<lambda>i p. attracted s (lerped s i p)", OF g assms order_refl]
  show ?thesis by (simp add: update_def j)
qed


lemma setTarget_fields:
  "count (setTarget T s) = count s" "positions (setTarget T s) = positions s"
  "lerpSpeed (setTarget T s) = lerpSpeed s" "attractor (setTarget T s) = attractor s"
  "attractRadius (setTarget T s) = attractRadius s"
  "attractStrength (setTarget T s) = attractStrength s"
  by (simp_all add: setTarget_def Let_def)

lemma setTarget_body_write3:
  "setTarget_body T L i out =
     write3 i ((\<lambda>i p. (rd_num T (js_rem (Num (real i)) L * Num 3),
                      rd_num T (js_rem (Num (real i)) L * Num 3 + Num 1),
                      rd_num T (js_rem (Num (real i)) L * Num 3 + Num 2))) i (read3 i out)) out"
  by (simp add: setTarget_body_def write3_def Let_def)

lemma setTarget_target:
  "\<exists>out. targetPositions (setTarget T s) = Some out \<and> length out = count s * 3
     \<and> (\<forall>j < count s * 3. out ! j =
           pick (rd_num T (js_rem (Num (real (j div 3))) (Num (real (length T)) / Num 3) * Num 3),
                 rd_num T (js_rem (Num (real (j div 3))) (Num (real (length T)) / Num 3) * Num 3 + Num 1),
                 rd_num T (js_rem (Num (real (j div 3))) (Num (real (length T)) / Num 3) * Num 3 + Num 2))
                (j mod 3))"
proof -
  let ?L = "Num (real (length T)) / Num 3"
  have len: "length (new_Float32Array (count s * 3)) = count s * 3"
    by (simp add: new_Float32Array_def)
  have j: "\<And>j. j < count s * 3 \<Longrightarrow> j div 3 < count s" by auto
  from fold_write3 [of "setTarget_body T ?L" _ "new_Float32Array (count s * 3)" "count s" "count s",
                    OF setTarget_body_write3 len order_refl]
  show ?thesis by (simp add: setTarget_def Let_def j)
qed

subsection \<open>\<^verbatim>\<open>setTarget\<close> wraps the source\<close>

lemma rd_num_nat: "rd_num T (Num (real m)) = (if m < length T then T ! m else NaN)"
  by simp

lemma js_rem_nat:
  assumes "0 < n"
  shows "js_rem (Num (real i)) (Num (real n)) = Num (real (i mod n))"
proof -
  have q: "\<not> real i / real n < 0" by (simp add: not_less)
  have "trunc (real i / real n) = \<lfloor>real i / real n\<rfloor>"
    using q by (simp only: trunc_def if_False)
  also have "\<dots> = int (i div n)"
    by (simp add: floor_divide_of_nat_eq)
  finally have t: "trunc (real i / real n) = int (i div n)" .
  have m: "real i - real n * real (i div n) = real (i mod n)"
  proof -
    have "real i = real (n * (i div n) + i mod n)" by simp
    then show ?thesis by (simp only: of_nat_add of_nat_mult)
  qed
  have n0: "real n \<noteq> 0" using assms by simp
  have "js_rem (Num (real i)) (Num (real n))
          = Num (real i - real n * of_int (trunc (real i / real n)))"
    using n0 by (simp only: js_rem.simps if_False)
  also have "\<dots> = Num (real (i mod n))"
    by (simp only: t of_int_of_nat_eq m)
  finally show ?thesis .
qed

lemma source_length:
  assumes "length T = n * 3"
  shows "Num (real (length T)) / Num 3 = Num (real n)"
  using assms by simp

lemma source_index:
  assumes "0 < n" and "length T = n * 3" and "k < 3"
  shows "rd_num T (js_rem (Num (real i)) (Num (real (length T)) / Num 3) * Num 3 + Num (real k))
         = T ! ((i mod n) * 3 + k)"
proof -
  have "Num (real (i mod n)) * Num 3 + Num (real k) = Num (real ((i mod n) * 3 + k))"
    by simp
  then have "js_rem (Num (real i)) (Num (real (length T)) / Num 3) * Num 3 + Num (real k)
          = Num (real ((i mod n) * 3 + k))"
    by (simp only: source_length [OF assms(2)] js_rem_nat [OF assms(1)])
  moreover have "(i mod n) * 3 + k < length T"
  proof -
    have "i mod n < n" using assms(1) by simp
    then have "(i mod n) * 3 + 3 \<le> n * 3" by simp
    then show ?thesis using assms(2,3) by simp
  qed
  ultimately show ?thesis
    by (simp only: rd_num_nat if_True)
qed

lemma source_index0:
  assumes "0 < n" and "length T = n * 3"
  shows "rd_num T (js_rem (Num (real i)) (Num (real (length T)) / Num 3) * Num 3)
         = T ! ((i mod n) * 3)"
proof -
  have "Num (real (i mod n)) * Num 3 = Num (real ((i mod n) * 3))"
    by simp
  then have "js_rem (Num (real i)) (Num (real (length T)) / Num 3) * Num 3
          = Num (real ((i mod n) * 3))"
    by (simp only: source_length [OF assms(2)] js_rem_nat [OF assms(1)])
  moreover have "(i mod n) * 3 < length T"
  proof -
    have "i mod n < n" using assms(1) by simp
    then have "(i mod n) * 3 + 3 \<le> n * 3" by simp
    then show ?thesis using assms(2) by simp
  qed
  ultimately show ?thesis
    by (simp only: rd_num_nat if_True)
qed

lemma pick_simps:
  "pick (a, b, c) 0 = a" "pick (a, b, c) 1 = b" "pick (a, b, c) 2 = c"
  by (simp_all add: pick_def)

lemma setTarget_particle:
  assumes "i < count s"
  shows "\<exists>out. targetPositions (setTarget T s) = Some out \<and> length out = count s * 3
     \<and> out ! (i * 3) = rd_num T (js_rem (Num (real i)) (Num (real (length T)) / Num 3) * Num 3)
     \<and> out ! (i * 3 + 1) = rd_num T (js_rem (Num (real i)) (Num (real (length T)) / Num 3) * Num 3 + Num 1)
     \<and> out ! (i * 3 + 2) = rd_num T (js_rem (Num (real i)) (Num (real (length T)) / Num 3) * Num 3 + Num 2)"
proof -
  from setTarget_target [of T s] obtain out where
    o: "targetPositions (setTarget T s) = Some out" "length out = count s * 3"
    and v: "\<And>j. j < count s * 3 \<Longrightarrow> out ! j =
           pick (rd_num T (js_rem (Num (real (j div 3))) (Num (real (length T)) / Num 3) * Num 3),
                 rd_num T (js_rem (Num (real (j div 3))) (Num (real (length T)) / Num 3) * Num 3 + Num 1),
                 rd_num T (js_rem (Num (real (j div 3))) (Num (real (length T)) / Num 3) * Num 3 + Num 2))
                (j mod 3)"
    by blast
  have j: "i * 3 < count s * 3" "i * 3 + 1 < count s * 3" "i * 3 + 2 < count s * 3"
    using assms by simp_all
  have d: "(i * 3) div 3 = i" "(i * 3) mod 3 = 0" "(i * 3 + 1) div 3 = i" "(i * 3 + 1) mod 3 = 1"
    "(i * 3 + 2) div 3 = i" "(i * 3 + 2) mod 3 = 2"
    by presburger+
  show ?thesis
    using o v [OF j(1)] v [OF j(2)] v [OF j(3)]
    by (simp only: d pick_simps) blast
qed

text \<open>
  Claim C8. For a source array of \<open>srcLen \<ge> 1\<close> points (\<open>srcLen * 3\<close> numbers) \<^verbatim>\<open>setTarget\<close>
  sets a target of exactly \<open>count * 3\<close> numbers in which point \<open>i\<close> is the source point
  \<open>i mod srcLen\<close>, coordinate for coordinate.
\<close>

theorem C8_setTarget_wraps:
  assumes "1 \<le> srcLen" and "length targetArray = srcLen * 3"
  shows "\<exists>out. targetPositions (setTarget targetArray s) = Some out
             \<and> length out = count s * 3
             \<and> (\<forall>i < count s. \<forall>k < 3.
                   out ! (i * 3 + k) = targetArray ! ((i mod srcLen) * 3 + k))"
proof -
  from setTarget_target [of targetArray s] obtain out where
    o: "targetPositions (setTarget targetArray s) = Some out" "length out = count s * 3"
    by blast
  have n: "0 < srcLen" using assms(1) by simp
  have "out ! (i * 3 + k) = targetArray ! ((i mod srcLen) * 3 + k)"
    if i: "i < count s" and k: "k < 3" for i k
  proof -
    from setTarget_particle [OF i, of targetArray] o(1)
    have p: "out ! (i * 3) = targetArray ! ((i mod srcLen) * 3)"
      "out ! (i * 3 + 1) = targetArray ! ((i mod srcLen) * 3 + 1)"
      "out ! (i * 3 + 2) = targetArray ! ((i mod srcLen) * 3 + 2)"
      using source_index0 [OF n assms(2), of i]
        source_index [OF n assms(2), of 1 i] source_index [OF n assms(2), of 2 i]
      by simp_all
    from k consider "k = 0" | "k = 1" | "k = 2" by linarith
    then show ?thesis using p by cases simp_all
  qed
  with o show ?thesis by blast
qed

text \<open>
  The premises of C8 hold for a source of one point and for a source of three points, set as
  the target of the system of two particles: the one point is repeated, and of the three
  points the first two are taken.
\<close>

theorem C8_setTarget_wraps_witness:
  "(1::nat) \<le> 1 \<and> length [Num 7, Num 8, Num 9] = 1 * 3
   \<and> targetPositions (setTarget [Num 7, Num 8, Num 9] two_particles)
       = Some [Num 7, Num 8, Num 9, Num 7, Num 8, Num 9]
   \<and> (1::nat) \<le> 3
   \<and> length [Num 1, Num 2, Num 3, Num 4, Num 5, Num 6, Num 7, Num 8, Num 9] = 3 * 3
   \<and> targetPositions
         (setTarget [Num 1, Num 2, Num 3, Num 4, Num 5, Num 6, Num 7, Num 8, Num 9] two_particles)
       = Some [Num 1, Num 2, Num 3, Num 4, Num 5, Num 6]"
proof -
  have a: "(1::nat) \<le> 1" "length [Num 7, Num 8, Num 9] = 1 * 3"
    and b: "(1::nat) \<le> 3"
      "length [Num 1, Num 2, Num 3, Num 4, Num 5, Num 6, Num 7, Num 8, Num 9] = 3 * 3"
    by simp_all
  have e1: "targetPositions (setTarget [Num 7, Num 8, Num 9] two_particles)
              = Some [Num 7, Num 8, Num 9, Num 7, Num 8, Num 9]"
    by code_simp
  have e2: "targetPositions
              (setTarget [Num 1, Num 2, Num 3, Num 4, Num 5, Num 6, Num 7, Num 8, Num 9]
                 two_particles)
              = Some [Num 1, Num 2, Num 3, Num 4, Num 5, Num 6]"
    by code_simp
  from C8_setTarget_wraps [OF a, of two_particles] C8_setTarget_wraps [OF b, of two_particles]
       e1 e2 a b
  show ?thesis by simp
qed

subsection \<open>An empty source array\<close>

lemma length_fold_update:
  assumes "\<And>i xs. length (f i xs) = length xs"
  shows "length (fold f is xs) = length xs"
  by (induction "is" arbitrary: xs) (simp_all add: assms)

lemma length_buildGeometry: "length (buildGeometry n rnd) = n * 3"
  unfolding buildGeometry_def
  by (subst length_fold_update) (simp_all add: Let_def new_Float32Array_def)

lemma NaN_arith [simp]:
  "NaN + a = NaN" "a + NaN = NaN" "NaN - a = NaN" "a - NaN = NaN" "NaN * a = NaN" "a * NaN = NaN"
  by (cases a; simp)+

lemma empty_source_reads:
  "rd_num [] (js_rem (Num (real i)) (Num (real (length ([]::Float32Array))) / Num 3) * Num 3) = NaN"
  "rd_num [] (js_rem (Num (real i)) (Num (real (length ([]::Float32Array))) / Num 3) * Num 3 + Num 1) = NaN"
  "rd_num [] (js_rem (Num (real i)) (Num (real (length ([]::Float32Array))) / Num 3) * Num 3 + Num 2) = NaN"
  by simp_all

lemma setTarget_empty:
  "targetPositions (setTarget [] s) = Some (replicate (count s * 3) NaN)"
proof -
  from setTarget_target [of "[]" s] obtain out where
    o: "targetPositions (setTarget [] s) = Some out" "length out = count s * 3"
    and v: "\<And>j. j < count s * 3 \<Longrightarrow> out ! j =
           pick (rd_num [] (js_rem (Num (real (j div 3))) (Num (real (length ([]::Float32Array))) / Num 3) * Num 3),
                 rd_num [] (js_rem (Num (real (j div 3))) (Num (real (length ([]::Float32Array))) / Num 3) * Num 3 + Num 1),
                 rd_num [] (js_rem (Num (real (j div 3))) (Num (real (length ([]::Float32Array))) / Num 3) * Num 3 + Num 2))
                (j mod 3)"
    by blast
  have "out ! j = NaN" if "j < count s * 3" for j
    using v [OF that] by (simp only: empty_source_reads) (simp add: pick_def)
  then have "out = replicate (count s * 3) NaN"
    using o(2) by (simp add: list_eq_iff_nth_eq)
  with o(1) show ?thesis by simp
qed

lemma rd_replicate_NaN: "rd (replicate n NaN) j = NaN"
  by (simp add: rd_def)

lemma lerped_NaN_target:
  "targetPositions s = Some (replicate n NaN) \<Longrightarrow> lerped s i p = (NaN, NaN, NaN)"
  by (simp add: lerped_def rd_replicate_NaN split: prod.splits)

lemma attracted_NaN: "attracted s (NaN, NaN, NaN) = (NaN, NaN, NaN)"
  by (simp add: attracted_def Let_def split: option.splits)

text \<open>
  Claim C4 (the code fails it). \<^verbatim>\<open>setTarget\<close> with an array of length 0 does not throw and does
  not touch the live positions, but it is not a no-op: \<^verbatim>\<open>srcLen\<close> is 0, \<^verbatim>\<open>i % srcLen\<close> is
  \<^verbatim>\<open>NaN\<close>, every read \<^verbatim>\<open>targetArray[NaN]\<close> is \<^verbatim>\<open>undefined\<close>, and the new target holds
  \<^verbatim>\<open>NaN\<close> in all its \<open>count * 3\<close> places. The next \<^verbatim>\<open>update\<close> then writes \<^verbatim>\<open>NaN\<close> into every
  live coordinate, with or without an attractor.
\<close>

theorem C4_empty_cloud_poisons_positions:
  assumes "length (positions s) = count s * 3"
  shows "positions (setTarget [] s) = positions s
       \<and> targetPositions (setTarget [] s) = Some (replicate (count s * 3) NaN)
       \<and> positions (update e (setTarget [] s)) = replicate (count s * 3) NaN"
proof -
  let ?s = "setTarget [] s"
  have len: "length (positions ?s) = count ?s * 3"
    using assms by (simp add: setTarget_fields)
  have T: "targetPositions ?s = Some (replicate (count s * 3) NaN)"
    by (rule setTarget_empty)
  from update_positions [OF len, of e]
  have l: "length (positions (update e ?s)) = count s * 3"
    and v: "\<And>j. j < count s * 3 \<Longrightarrow> positions (update e ?s) ! j =
             pick (attracted ?s (lerped ?s (j div 3) (read3 (j div 3) (positions ?s)))) (j mod 3)"
    by (simp_all add: setTarget_fields)
  have "positions (update e ?s) ! j = NaN" if "j < count s * 3" for j
    using v [OF that] by (simp add: lerped_NaN_target [OF T] attracted_NaN pick_def)
  then have "positions (update e ?s) = replicate (count s * 3) NaN"
    using l by (simp add: list_eq_iff_nth_eq)
  with T show ?thesis by (simp add: setTarget_fields)
qed

text \<open>
  The same on a system of two particles at \<open>(0, 0, 0)\<close> and \<open>(1, 1, 1)\<close>: after
  \<^verbatim>\<open>setTarget\<close> with the empty array and one frame, all six coordinates are \<^verbatim>\<open>NaN\<close>. On a
  system as the constructor builds it (5000 particles), all 15000 are.
\<close>

theorem C4_empty_cloud_poisons_positions_witness:
  "length (positions two_particles) = count two_particles * 3
   \<and> positions two_particles = [Num 0, Num 0, Num 0, Num 1, Num 1, Num 1]
   \<and> positions (setTarget [] two_particles) = [Num 0, Num 0, Num 0, Num 1, Num 1, Num 1]
   \<and> targetPositions (setTarget [] two_particles) = Some [NaN, NaN, NaN, NaN, NaN, NaN]
   \<and> positions (update (Num 0) (setTarget [] two_particles)) = [NaN, NaN, NaN, NaN, NaN, NaN]
   \<and> length (positions (new_ParticleSystem (\<lambda>k. 0))) = count (new_ParticleSystem (\<lambda>k. 0)) * 3
   \<and> positions (update (Num 0) (setTarget [] (new_ParticleSystem (\<lambda>k. 0))))
       = replicate 15000 NaN"
proof -
  have l: "length (positions two_particles) = count two_particles * 3"
    by (simp add: two_particles_def)
  have r: "replicate (count two_particles * 3) NaN = [NaN, NaN, NaN, NaN, NaN, NaN]"
    by (simp add: two_particles_def numeral_eq_Suc)
  have small: "positions two_particles = [Num 0, Num 0, Num 0, Num 1, Num 1, Num 1]
   \<and> positions (setTarget [] two_particles) = [Num 0, Num 0, Num 0, Num 1, Num 1, Num 1]
   \<and> targetPositions (setTarget [] two_particles) = Some [NaN, NaN, NaN, NaN, NaN, NaN]
   \<and> positions (update (Num 0) (setTarget [] two_particles)) = [NaN, NaN, NaN, NaN, NaN, NaN]"
    using C4_empty_cloud_poisons_positions [OF l, of "Num 0"]
    unfolding r by (simp add: two_particles_def)
  have n: "count (new_ParticleSystem (\<lambda>k. 0)) * 3 = 15000"
    by (simp add: new_ParticleSystem_def PARTICLE_COUNT_def)
  have L: "length (positions (new_ParticleSystem (\<lambda>k. 0))) = count (new_ParticleSystem (\<lambda>k. 0)) * 3"
    by (simp add: new_ParticleSystem_def length_buildGeometry)
  have big: "positions (update (Num 0) (setTarget [] (new_ParticleSystem (\<lambda>k. 0))))
       = replicate 15000 NaN"
    using C4_empty_cloud_poisons_positions [OF L, of "Num 0"] by (simp only: n)
  from l small L big show ?thesis by blast
qed

subsection \<open>The attraction step\<close>





subsection \<open>Rounding to float32\<close>




























subsection \<open>The lerp step over many frames\<close>









section \<open>Properties of the formation generators\<close>

lemma length_getSpherePositions: "length (getSpherePositions n radius rnd) = n * 3"
  unfolding getSpherePositions_def
  by (subst length_fold_update) (simp_all add: Let_def new_Float32Array_def)

lemma length_getHeartPositions: "length (getHeartPositions n scale rnd) = n * 3"
  unfolding getHeartPositions_def
  by (subst length_fold_update) (simp_all add: Let_def new_Float32Array_def)

lemma length_getCompactPositions: "length (getCompactPositions n radius rnd) = n * 3"
  unfolding getCompactPositions_def
  by (subst length_fold_update) (simp_all add: Let_def new_Float32Array_def)

lemma length_getPlanetPositions: "length (getPlanetPositions n rnd) = n * 3"
  unfolding getPlanetPositions_def Let_def
  by (subst length_fold_update) (simp_all add: new_Float32Array_def)

lemma length_sampleSurface: "length (sampleSurface getArea geometry n rnd) = n * 3"
  unfolding sampleSurface_def Let_def
  by (simp split: prod.splits) (subst length_fold_update; simp add: new_Float32Array_def split: prod.splits)

text \<open>
  Claim C7. For every count \<open>n\<close>, every radius or scale, every sequence of random values and,
  for the text generator, every mesh and every area function, each of the five generators
  returns an array of exactly \<open>n * 3\<close> numbers; with \<open>n = 5000\<close> that is 15000.
\<close>

theorem C7_generators_length:
  "length (getSpherePositions n radius rnd) = n * 3
   \<and> length (getHeartPositions n scale rnd) = n * 3
   \<and> length (getCompactPositions n radius rnd) = n * 3
   \<and> length (getPlanetPositions n rnd) = n * 3
   \<and> length (getTextPositions TextGeometry getArea text n rnd) = n * 3
   \<and> length (getSpherePositions 5000 radius rnd) = 15000
   \<and> length (getHeartPositions 5000 scale rnd) = 15000
   \<and> length (getCompactPositions 5000 radius rnd) = 15000
   \<and> length (getPlanetPositions 5000 rnd) = 15000
   \<and> length (getTextPositions TextGeometry getArea text 5000 rnd) = 15000"
  by (simp add: length_getSpherePositions length_getHeartPositions length_getCompactPositions
        length_getPlanetPositions length_sampleSurface getTextPositions_def)

section \<open>Properties of the orchestrator\<close>

text \<open>
  Claim C9. \<^verbatim>\<open>setFormation\<close> with the id of the current formation, or with an id whose point
  cloud has not been computed, returns the state as it is: the current formation, the particle
  system with its target, and the title text are unchanged. The function has no failing path.
\<close>

theorem C9_setFormation_noop:
  "fid = currentFormation st \<or> formationData st fid = None \<longrightarrow>
     setFormation fid st = st
   \<and> currentFormation (setFormation fid st) = currentFormation st
   \<and> particles (setFormation fid st) = particles st
   \<and> targetPositions (particles (setFormation fid st)) = targetPositions (particles st)
   \<and> titleText (setFormation fid st) = titleText st"
  by (auto simp: setFormation_def)

text \<open>
  Both premises of C9 occur in the example state: COSMOS is current, and the PLANET cloud is
  not computed.
\<close>

theorem C9_setFormation_noop_witness:
  "COSMOS = currentFormation example_orchestrator
   \<and> setFormation COSMOS example_orchestrator = example_orchestrator
   \<and> formationData example_orchestrator PLANET = None
   \<and> setFormation PLANET example_orchestrator = example_orchestrator"
  using C9_setFormation_noop [of COSMOS example_orchestrator]
        C9_setFormation_noop [of PLANET example_orchestrator]
  by (simp add: example_orchestrator_def)

end
